theory Spec2Isabelle
  imports Main
begin

section \<open>Session Store: the call-scoped Redis client\<close>

text \<open>
  \<^verbatim>\<open>src/src/redis_client.py\<close>, class \<^verbatim>\<open>RedisClient\<close>. The server is a mapping from
  keys to stored strings with their time to live; the client refuses every call when it
  is not connected (\<^verbatim>\<open>_ensure_connection\<close>). Values handed to the client are Python
  values: a boolean, a string, or a dict or list (carried here as its JSON text, which
  is what \<^verbatim>\<open>set_call_data\<close> makes of it before storing).
\<close>

datatype pyval = PBool bool | PStr string | PDoc string

datatype store_error = NotConnected | DataError

text \<open>
  What the Redis library does with a Python \<^verbatim>\<open>bool\<close> handed to \<^verbatim>\<open>set\<close> is not
  code of this repository. The library's encoder rejects it with a \<^verbatim>\<open>DataError\<close>;
  the other conceivable treatment is Python's own \<^verbatim>\<open>str\<close>, which gives
  \<^verbatim>\<open>"True"\<close> and \<^verbatim>\<open>"False"\<close>. Both are kept as a parameter.
\<close>

datatype bool_encoding = RejectsBool | StrOfBool

record redis =
  connected :: bool
  kv :: "string \<rightharpoonup> string \<times> nat"

definition py_str_bool :: "bool \<Rightarrow> string" where
  "py_str_bool b = (if b then ''True'' else ''False'')"

definition py_lower_str_bool :: "bool \<Rightarrow> string" where
  "py_lower_str_bool b = (if b then ''true'' else ''false'')"

definition encode_value :: "bool_encoding \<Rightarrow> pyval \<Rightarrow> store_error + string" where
  "encode_value enc v =
     (case v of
        PStr s \<Rightarrow> Inr s
      | PDoc j \<Rightarrow> Inr j
      | PBool b \<Rightarrow> (case enc of RejectsBool \<Rightarrow> Inl DataError
                               | StrOfBool \<Rightarrow> Inr (py_str_bool b)))"

definition call_key :: "string \<Rightarrow> string \<Rightarrow> string" where
  "call_key call_id field = ''call:'' @ call_id @ '':'' @ field"

definition set_call_data ::
  "bool_encoding \<Rightarrow> redis \<Rightarrow> string \<Rightarrow> string \<Rightarrow> pyval \<Rightarrow> nat \<Rightarrow> store_error + redis" where
  "set_call_data enc r call_id key v expiry =
     (if \<not> connected r then Inl NotConnected
      else case encode_value enc v of
             Inl e \<Rightarrow> Inl e
           | Inr s \<Rightarrow> Inr (r\<lparr>kv := (kv r)(call_key call_id key \<mapsto> (s, expiry))\<rparr>))"

definition set_ai_speaking :: "redis \<Rightarrow> string \<Rightarrow> bool \<Rightarrow> store_error + redis" where
  "set_ai_speaking r call_id is_speaking =
     (if \<not> connected r then Inl NotConnected
      else Inr (r\<lparr>kv := (kv r)(call_key call_id ''is_ai_speaking''
                                 \<mapsto> (py_lower_str_bool is_speaking, 3600))\<rparr>))"

definition is_ai_speaking :: "redis \<Rightarrow> string \<Rightarrow> store_error + bool" where
  "is_ai_speaking r call_id =
     (if \<not> connected r then Inl NotConnected
      else Inr (map_option fst (kv r (call_key call_id ''is_ai_speaking'')) = Some ''true''))"

section \<open>Recognition events\<close>

text \<open>
  The recognizer client (\<^verbatim>\<open>DeepgramService.process_audio_stream\<close>) yields dictionaries of
  four shapes: \<^verbatim>\<open>{"event": "speech_started"}\<close>, a transcript with \<^verbatim>\<open>is_final\<close> and
  \<^verbatim>\<open>transcript\<close> (the pipeline also reads \<^verbatim>\<open>duration\<close>), \<^verbatim>\<open>{"event": "error"}\<close> with
  a message, and \<^verbatim>\<open>{"event": "close"}\<close>.
\<close>

datatype dg_result =
    SpeechStarted
  | Transcript (is_final: bool) (transcript: string) (duration: nat)
  | DgError string
  | DgClose

text \<open>Python's \<^verbatim>\<open>str.strip()\<close> on the ASCII white space characters.\<close>

definition py_isspace :: "char \<Rightarrow> bool" where
  "py_isspace c = (c \<in> set [CHR '' '', CHR 0x09, CHR 0x0A, CHR 0x0B, CHR 0x0C, CHR 0x0D,
                              CHR 0x1C, CHR 0x1D, CHR 0x1E, CHR 0x1F])"

definition py_strip :: "string \<Rightarrow> string" where
  "py_strip s = rev (dropWhile py_isspace (rev (dropWhile py_isspace s)))"

section \<open>Call Log Sink: the \<^verbatim>\<open>call_segments\<close> table\<close>

record seg_row =
  seg_call_id :: string
  sequence_number :: int
  speaker :: string
  text_content :: string
  asr_audio_seconds :: "nat option"

text \<open>
  \<^verbatim>\<open>SupabaseClient.list_records\<close> on \<^verbatim>\<open>call_segments\<close> with a filter on \<^verbatim>\<open>call_id\<close>,
  ordered by \<^verbatim>\<open>sequence_number.desc\<close>, limit 1. Both definitions of \<^verbatim>\<open>list_records\<close> in
  \<^verbatim>\<open>src/src/supabase_client.py\<close> apply the equality operator themselves to the value they
  are given (\<^verbatim>\<open>query.eq(key, value)\<close>, and \<^verbatim>\<open>params[key] = f"eq.{value}"\<close>): the rows returned
  are those whose \<^verbatim>\<open>call_id\<close> equals the filter value.
\<close>

definition list_records :: "seg_row list \<Rightarrow> string \<Rightarrow> seg_row list" where
  "list_records rows v =
     take 1 (sort_key (\<lambda>r. - sequence_number r) (filter (\<lambda>r. seg_call_id r = v) rows))"

text \<open>
  \<^verbatim>\<open>CoreAIPipeline._get_next_sequence\<close>: the filter value it passes is
  \<^verbatim>\<open>f'eq.{call_id}'\<close>; a failed read gives 1.
\<close>

definition get_next_sequence :: "seg_row list \<Rightarrow> bool \<Rightarrow> string \<Rightarrow> int" where
  "get_next_sequence rows read_ok call_id =
     (if \<not> read_ok then 1
      else case list_records rows (''eq.'' @ call_id) of
             [] \<Rightarrow> 1
           | r # _ \<Rightarrow> sequence_number r + 1)"

section \<open>The core pipeline\<close>

text \<open>
  \<^verbatim>\<open>src/src/core_ai_pipeline.py\<close>, class \<^verbatim>\<open>CoreAIPipeline\<close>. Every effect of the pipeline
  is appended to a trace, in the order the code performs it: writes of the speaking flag,
  frames sent on the socket, rows inserted into \<^verbatim>\<open>call_segments\<close>, appends to the
  store's transcript history, and requests to the language model. The two orchestrators
  below add theirs: transcript segments with a speaker, the conversation memory, the
  creation and cancellation of playback tasks.
\<close>

datatype act =
    SetSpeaking bool
  | SendMedia string
  | SendMark
  | LogSegment seg_row
  | AppendHistory string
  | LlmRequest string
  | SendRaw string
  | AppendTranscript string string
  | SetMemory string string
  | CreateTask nat
  | CancelTask nat
  | LogPlain string string
  | SaveMemory "(string \<times> string) list"

record pipe =
  speaking :: bool
  segments :: "seg_row list"
  history :: "string list"
  trace :: "act list"

text \<open>
  What the collaborators do while one recognition event is handled: whether the sink's
  reads and inserts succeed (for the user's row and for the assistant's), what the chat
  returns, the chunks the speech synthesizer yields, and at which chunk the socket is
  found closed. \<^verbatim>\<open>ElevenLabsService.synthesize_speech_stream\<close> absorbs its own errors
  (it yields a silent chunk), so the stream is a list of chunks.
\<close>

datatype chat_outcome = ChatRaises | ChatReply (reply_text: string) (tool_calls: bool)

record world =
  user_read_ok :: bool
  user_write_ok :: bool
  chat :: chat_outcome
  tts_chunks :: "string list"
  ws_closed :: "nat \<Rightarrow> bool"
  ai_read_ok :: bool
  ai_write_ok :: bool

datatype outcome = Returned | Raised

definition emit :: "act \<Rightarrow> pipe \<Rightarrow> pipe" where
  "emit a p = p\<lparr>trace := trace p @ [a]\<rparr>"

definition set_speaking :: "bool \<Rightarrow> pipe \<Rightarrow> pipe" where
  "set_speaking b p = emit (SetSpeaking b) (p\<lparr>speaking := b\<rparr>)"

definition log_message ::
  "bool \<Rightarrow> bool \<Rightarrow> pipe \<Rightarrow> string \<Rightarrow> string \<Rightarrow> string \<Rightarrow> nat option \<Rightarrow> outcome \<times> pipe" where
  "log_message read_ok write_ok p call_id who txt dur =
     (let row = \<lparr>seg_call_id = call_id,
                 sequence_number = get_next_sequence (segments p) read_ok call_id,
                 speaker = who, text_content = txt, asr_audio_seconds = dur\<rparr>
      in if \<not> write_ok then (Raised, p)
         else (Returned,
               emit (AppendHistory txt)
                 ((emit (LogSegment row) (p\<lparr>segments := segments p @ [row]\<rparr>))
                    \<lparr>history := history p @ [txt]\<rparr>)))"

definition log_user_message :: "world \<Rightarrow> pipe \<Rightarrow> string \<Rightarrow> string \<Rightarrow> nat \<Rightarrow> outcome \<times> pipe" where
  "log_user_message w p call_id txt dur =
     log_message (user_read_ok w) (user_write_ok w) p call_id ''user'' txt (Some dur)"

definition log_ai_message :: "world \<Rightarrow> pipe \<Rightarrow> string \<Rightarrow> string \<Rightarrow> outcome \<times> pipe" where
  "log_ai_message w p call_id txt =
     log_message (ai_read_ok w) (ai_write_ok w) p call_id ''ai'' txt None"

definition generate_ai_response :: "world \<Rightarrow> string option" where
  "generate_ai_response w =
     (case chat w of
        ChatRaises \<Rightarrow> None
      | ChatReply t tc \<Rightarrow> if tc then Some t else Some (py_strip t))"

text \<open>The loop over the synthesizer's chunks: a media frame and a mark frame per chunk.\<close>

fun send_chunks :: "(nat \<Rightarrow> bool) \<Rightarrow> nat \<Rightarrow> string list \<Rightarrow> pipe \<Rightarrow> pipe" where
  "send_chunks closed i [] p = p"
| "send_chunks closed i (c # cs) p =
     (if closed i then p
      else send_chunks closed (Suc i) cs (emit SendMark (emit (SendMedia c) p)))"

definition stream_tts_response :: "world \<Rightarrow> pipe \<Rightarrow> string \<Rightarrow> string \<Rightarrow> outcome \<times> pipe" where
  "stream_tts_response w p call_id txt =
     (let p1 = set_speaking True p;
          p2 = send_chunks (ws_closed w) 0 (tts_chunks w) p1
      in case log_ai_message w p2 call_id txt of
           (Raised, p3) \<Rightarrow> (Raised, set_speaking False p3)
         | (Returned, p3) \<Rightarrow> (Returned, set_speaking False p3))"

definition handle_result :: "world \<Rightarrow> pipe \<Rightarrow> string \<Rightarrow> dg_result \<Rightarrow> outcome \<times> pipe" where
  "handle_result w p call_id r =
     (case r of
        SpeechStarted \<Rightarrow>
          (if speaking p then (Returned, set_speaking False p) else (Returned, p))
      | Transcript fin txt dur \<Rightarrow>
          (if \<not> fin then (Returned, p)
           else let user_transcript = py_strip txt
                in if user_transcript = [] then (Returned, p)
                   else case log_user_message w p call_id user_transcript dur of
                          (Raised, p1) \<Rightarrow> (Raised, p1)
                        | (Returned, p1) \<Rightarrow>
                            (let p2 = emit (LlmRequest user_transcript) p1
                             in case generate_ai_response w of
                                  None \<Rightarrow> (Returned, p2)
                                | Some ai_response \<Rightarrow>
                                    if ai_response = [] then (Returned, p2)
                                    else stream_tts_response w p2 call_id ai_response))
      | DgError m \<Rightarrow> (Returned, p)
      | DgClose \<Rightarrow> (Returned, p))"






section \<open>The media-stream handler with a playback task\<close>

text \<open>
  \<^verbatim>\<open>src/ai_orchestrator.py\<close>, \<^verbatim>\<open>_handle_signalwire_media_stream\<close>. The reply is played by
  an \<^verbatim>\<open>asyncio\<close> task created with \<^verbatim>\<open>create_task\<close>; the handler keeps its handle in
  \<^verbatim>\<open>current_tts_task\<close> and goes on with the next recognition event. A task is
  running, has a cancellation requested (\<^verbatim>\<open>Task.cancel()\<close> was called and the
  \<^verbatim>\<open>CancelledError\<close> is not delivered yet), or is done.
\<close>

datatype task_status = Running | CancelRequested | Done

record tts_task =
  status :: task_status
  chunks :: "string list"

record session =
  ai_speaking :: bool
  current_tts_task :: "nat option"
  tasks :: "tts_task list"
  socket_closed :: bool
  barge_ins :: nat
  strace :: "act list"

text \<open>
  \<^verbatim>\<open>GeminiService.generate_response\<close> (\<^verbatim>\<open>src/src/services/gemini_service.py\<close>): the text of the
  model's answer, or one of three canned utterances when the request fails.
\<close>

datatype gen_outcome = GenText string | GenBlocked | GenStopped | GenFailed

definition generate_response :: "gen_outcome \<Rightarrow> string" where
  "generate_response g =
     (case g of
        GenText t \<Rightarrow> t
      | GenBlocked \<Rightarrow>
          ''I'' @ CHR 0x27 # ''m sorry, I cannot process that request due to content policy. Can I help with something else?''
      | GenStopped \<Rightarrow>
          ''I'' @ CHR 0x27 # ''m sorry, I'' @ CHR 0x27 # ''m having trouble understanding. Could you please rephrase?''
      | GenFailed \<Rightarrow> ''I apologize, I encountered an internal error with my brain. Please try again later.'')"

text \<open>
  What the collaborators do while the handler takes one event: the outcome of the request
  to the language model, and the chunks the synthesizer yields for the utterance spoken.
\<close>

record aworld =
  gen :: gen_outcome
  reply_chunks :: "string list"

definition tell :: "act \<Rightarrow> session \<Rightarrow> session" where
  "tell a s = s\<lparr>strace := strace s @ [a]\<rparr>"

definition store_speaking :: "bool \<Rightarrow> session \<Rightarrow> session" where
  "store_speaking b s = tell (SetSpeaking b) (s\<lparr>ai_speaking := b\<rparr>)"

text \<open>\<^verbatim>\<open>Task.done()\<close> and \<^verbatim>\<open>Task.cancel()\<close>; cancelling a finished task does nothing.\<close>

definition task_done :: "session \<Rightarrow> nat \<Rightarrow> bool" where
  "task_done s i = (i \<ge> length (tasks s) \<or> status (tasks s ! i) = Done)"

definition cancel :: "nat \<Rightarrow> session \<Rightarrow> session" where
  "cancel i s =
     (if task_done s i then s
      else s\<lparr>tasks := (tasks s)[i := (tasks s ! i)\<lparr>status := CancelRequested\<rparr>]\<rparr>)"


definition barge_in_check :: "session \<Rightarrow> session" where
  "barge_in_check s =
     (case current_tts_task s of
        None \<Rightarrow> s
      | Some i \<Rightarrow>
          if ai_speaking s \<and> \<not> task_done s i
          then (tell (CancelTask i) (cancel i s))\<lparr>barge_ins := Suc (barge_ins s)\<rparr>
          else s)"

definition start_playback :: "string list \<Rightarrow> session \<Rightarrow> session" where
  "start_playback cs s =
     tell (CreateTask (length (tasks s)))
       (s\<lparr>tasks := tasks s @ [\<lparr>status = Running, chunks = cs\<rparr>],
          current_tts_task := Some (length (tasks s))\<rparr>)"

fun send_fallback :: "string list \<Rightarrow> session \<Rightarrow> session" where
  "send_fallback [] s = s"
| "send_fallback (c # cs) s =
     (if socket_closed s then s else send_fallback cs (tell (SendMedia c) s))"

definition on_final :: "aworld \<Rightarrow> string \<Rightarrow> session \<Rightarrow> session" where
  "on_final w txt s =
     (if txt = [] then s
      else let s1 = tell (LlmRequest txt) (tell (AppendTranscript ''user'' txt) s);
               response = generate_response (gen w)
           in if response = [] then s1
              else tell (AppendTranscript ''ai'' response)
                     (start_playback (reply_chunks w)
                        (store_speaking True (tell (SetMemory txt response) s1))))"

definition handle_dg :: "aworld \<Rightarrow> session \<Rightarrow> dg_result \<Rightarrow> session" where
  "handle_dg w s r =
     (case r of
        SpeechStarted \<Rightarrow> barge_in_check s
      | Transcript fin txt dur \<Rightarrow> (if fin then on_final w txt s else s)
      | DgError m \<Rightarrow> store_speaking False (send_fallback (reply_chunks w) (store_speaking True s))
      | DgClose \<Rightarrow> s)"







section \<open>The media-stream handler of the orchestrator class\<close>

text \<open>
  \<^verbatim>\<open>src/src/ai_orchestrator.py\<close>, \<^verbatim>\<open>AIOrchestrator._handle_signalwire_media_stream\<close> and its
  helpers. The handler declares \<^verbatim>\<open>tts_task\<close> as empty and reads it on speech start; the
  reply is sent by \<^verbatim>\<open>_send_tts_response\<close>, awaited in place, which writes the speaking
  flag under the socket's identifier, while the barge-in check reads the flag stored under
  the call identifier. The two flags are two fields here.
\<close>

record orch =
  call_speaking :: bool
  ws_speaking :: bool
  tts_task :: "task_status option"
  memory :: "(string \<times> string) list"
  otrace :: "act list"

definition say :: "act \<Rightarrow> orch \<Rightarrow> orch" where
  "say a s = s\<lparr>otrace := otrace s @ [a]\<rparr>"

definition log_plain :: "bool \<Rightarrow> string \<Rightarrow> string \<Rightarrow> orch \<Rightarrow> orch" where
  "log_plain write_ok who txt s = (if write_ok then say (LogPlain who txt) s else s)"

definition get_ai_response :: "world \<Rightarrow> string \<Rightarrow> orch \<Rightarrow> string option \<times> orch" where
  "get_ai_response w user_message s =
     (let s1 = say (LlmRequest user_message) (s\<lparr>memory := memory s @ [(''user'', user_message)]\<rparr>)
      in case chat w of
           ChatRaises \<Rightarrow> (None, s1)
         | ChatReply t tc \<Rightarrow>
             if t = [] then (None, s1)
             else let ai_message = py_strip t;
                      m = memory s1 @ [(''model'', ai_message)]
                  in (Some ai_message, say (SaveMemory m) (s1\<lparr>memory := m\<rparr>)))"

fun send_media_chunks :: "(nat \<Rightarrow> bool) \<Rightarrow> nat \<Rightarrow> string list \<Rightarrow> orch \<Rightarrow> orch" where
  "send_media_chunks closed i [] s = s"
| "send_media_chunks closed i (c # cs) s =
     (if closed i then s else send_media_chunks closed (Suc i) cs (say (SendMedia c) s))"

definition send_tts_response :: "world \<Rightarrow> orch \<Rightarrow> orch" where
  "send_tts_response w s =
     (send_media_chunks (ws_closed w) 0 (tts_chunks w) (s\<lparr>ws_speaking := True\<rparr>))
       \<lparr>ws_speaking := False\<rparr>"

definition orch_final :: "world \<Rightarrow> string \<Rightarrow> nat \<Rightarrow> orch \<Rightarrow> orch" where
  "orch_final w txt dur s =
     (let t = py_strip txt
      in if t = [] then s
         else case get_ai_response w t (log_plain (user_write_ok w) ''user'' t s) of
                (None, s2) \<Rightarrow> s2
              | (Some ai_response, s2) \<Rightarrow>
                  if ai_response = [] then s2
                  else log_plain (ai_write_ok w) ''ai'' ai_response (send_tts_response w s2))"

definition orch_handle :: "world \<Rightarrow> orch \<Rightarrow> dg_result \<Rightarrow> orch" where
  "orch_handle w s r =
     (case r of
        SpeechStarted \<Rightarrow>
          (case tts_task s of
             None \<Rightarrow> s
           | Some t \<Rightarrow>
               if call_speaking s \<and> t \<noteq> Done
               then say (SetSpeaking False)
                      (s\<lparr>tts_task := Some CancelRequested, call_speaking := False\<rparr>)
               else s)
      | Transcript fin txt dur \<Rightarrow> (if fin then orch_final w txt dur s else s)
      | DgError m \<Rightarrow> s
      | DgClose \<Rightarrow> s)"

definition orch_run :: "orch \<Rightarrow> (world \<times> dg_result) list \<Rightarrow> orch" where
  "orch_run s xs = foldl (\<lambda>s (w, r). orch_handle w s r) s xs"


section \<open>The call bring-up webhook\<close>






datatype response = Response nat string | ReturnedException nat








section \<open>Outbound call initiation\<close>






section \<open>Notions used in the properties\<close>





section \<open>Reading traces\<close>








section \<open>Sample inputs\<close>







section \<open>Properties of the Session Store\<close>

lemma set_ai_speaking_roundtrip:
  "\<exists>r'. set_ai_speaking (r\<lparr>connected := True\<rparr>) call_id v = Inr r'
        \<and> is_ai_speaking r' call_id = Inr v"
  by (simp add: set_ai_speaking_def is_ai_speaking_def py_lower_str_bool_def)

text \<open>
  C6. A speaking flag written as \<^verbatim>\<open>True\<close> through \<^verbatim>\<open>set_call_data\<close>, as the pipeline
  writes it, is never read back as true by \<^verbatim>\<open>is_ai_speaking\<close>: either the write is
  refused, or the stored text is \<^verbatim>\<open>"True"\<close>, which the read compares with \<^verbatim>\<open>"true"\<close>.
\<close>

theorem set_call_data_true_not_observed:
  "set_call_data RejectsBool (r\<lparr>connected := True\<rparr>) call_id ''is_ai_speaking'' (PBool True) ex
     = Inl DataError
   \<and> (\<exists>r'. set_call_data StrOfBool (r\<lparr>connected := True\<rparr>) call_id ''is_ai_speaking'' (PBool True) ex
              = Inr r'
          \<and> is_ai_speaking r' call_id = Inr False)"
  by (simp add: set_call_data_def encode_value_def is_ai_speaking_def py_str_bool_def)

section \<open>Properties of the Call Log Sink\<close>

lemma get_next_sequence_own_rows:
  "list_all (\<lambda>r. seg_call_id r = cid) rows \<Longrightarrow> get_next_sequence rows ok cid = 1"
proof -
  assume own: "list_all (\<lambda>r. seg_call_id r = cid) rows"
  have "filter (\<lambda>r. seg_call_id r = ''eq.'' @ cid) rows = []"
    using own by (induction rows) auto
  then show ?thesis by (simp add: get_next_sequence_def list_records_def)
qed


section \<open>Properties of the turn handling\<close>

text \<open>
  C5. A final transcript whose text is empty changes nothing in any of the three handlers:
  the state after the event is the state before it, so no request to the language model
  is made, and the history and the frames sent are as they were.
\<close>

theorem empty_final_is_ignored:
  "handle_result w p cid (Transcript True [] d) = (Returned, p)
   \<and> handle_dg aw s (Transcript True [] d) = s
   \<and> orch_handle w t (Transcript True [] d) = t"
  by (simp add: handle_result_def handle_dg_def on_final_def orch_handle_def orch_final_def
      py_strip_def)

section \<open>Properties of the outbound call endpoint\<close>



section \<open>Properties of the webhook\<close>




section \<open>Properties of the speaking flag\<close>












section \<open>Properties of the conversation history\<close>









section \<open>Properties of the failure of the language model\<close>





section \<open>Properties of barge-in\<close>




section \<open>Properties of the playback tasks\<close>















end
